theory Spec2Isabelle
  imports Complex_Main
begin

unbundle bit_operations_syntax

section \<open>ros\_pybullet\_interface\_node.py: the node and its object registry\<close>

text \<open>
  The theory embeds \<^verbatim>\<open>scripts/ros_pybullet_interface_node.py\<close>: the static method
  \<^verbatim>\<open>Node.parse_options\<close>, the registry class \<^verbatim>\<open>PybulletObjects\<close> and the five
  service handlers of \<^verbatim>\<open>Node\<close>. Python exceptions are values: an operation that may
  raise returns \<open>exn + 'a\<close> (\<open>Inl\<close> the exception) or, when it returns nothing,
  \<open>exn option\<close> (\<open>Some\<close> the exception).
\<close>

subsection \<open>Exceptions and Python values\<close>

text \<open>
  The exception classes the file raises itself (\<open>KeyError\<close>, \<open>ValueError\<close>) or
  triggers in the interpreter (\<open>IndexError\<close>, \<open>AttributeError\<close>, \<open>TypeError\<close>), and
  \<open>Error\<close> for every other subclass of \<^verbatim>\<open>Exception\<close> (a failure of the pybullet
  engine, of a config loader, of an object class). The argument is the exception's
  argument; for \<open>AttributeError\<close> it is the name of the missing attribute, and for
  \<open>TypeError\<close> it is Python's text without the name of the offending type, which
  the values below do not record (Python says \<^verbatim>\<open>'NoneType' object is not iterable\<close>).
\<close>

datatype exn =
    KeyError string
  | ValueError string
  | IndexError string
  | AttributeError string
  | TypeError string
  | Error string

text \<open>
  The values \<^verbatim>\<open>parse_options\<close> distinguishes with \<^verbatim>\<open>isinstance\<close>: an \<^verbatim>\<open>int\<close>
  (unbounded; a \<^verbatim>\<open>bool\<close> is an \<^verbatim>\<open>int\<close> in Python), a \<^verbatim>\<open>str\<close>, a list, and
  \<open>PyOther\<close> for any other object (\<^verbatim>\<open>None\<close>, a float, a function of the pybullet
  module): neither an int nor a str, and not iterable. A tuple goes through
  \<^verbatim>\<open>parse_options\<close> as the list of its elements does (iteration, \<^verbatim>\<open>options[0]\<close>
  and \<^verbatim>\<open>options[1:]\<close> are all it uses), so \<open>PyList\<close> stands for both.
\<close>

datatype pyval =
    PyInt int
  | PyStr string
  | PyList "pyval list"
  | PyOther

subsection \<open>parse\_options\<close>

text \<open>\<^verbatim>\<open>s.split(sep)\<close> for a separator of one character: \<^verbatim>\<open>''.split('|') == ['']\<close>.\<close>

fun str_split :: "char \<Rightarrow> string \<Rightarrow> string list" where
  "str_split sep [] = [[]]"
| "str_split sep (c # cs) =
     (if c = sep then [] # str_split sep cs
      else (case str_split sep cs of
              [] \<Rightarrow> [[c]]
            | w # ws \<Rightarrow> (c # w) # ws))"

text \<open>
  \<^verbatim>\<open>all(isinstance(el, str) for el in ls)\<close>: iterating over an object that is not
  iterable raises \<open>TypeError\<close>; \<^verbatim>\<open>all\<close> of no element is \<^verbatim>\<open>True\<close>. An int and a str
  never reach the two tests (\<^verbatim>\<open>parse_options\<close> returns, or splits, first); a str is
  iterable and its elements are strs.
\<close>

fun is_str :: "pyval \<Rightarrow> bool" where
  "is_str (PyStr s) = True"
| "is_str v = False"

fun is_int :: "pyval \<Rightarrow> bool" where
  "is_int (PyInt i) = True"
| "is_int v = False"

fun is_list_str :: "pyval \<Rightarrow> exn + bool" where
  "is_list_str (PyList ls) = Inr (list_all is_str ls)"
| "is_list_str (PyStr s) = Inr True"
| "is_list_str v = Inl (TypeError ''object is not iterable'')"

fun is_list_int :: "pyval \<Rightarrow> exn + bool" where
  "is_list_int (PyList ls) = Inr (list_all is_int ls)"
| "is_list_int (PyStr s) = Inr (s = [])"
| "is_list_int v = Inl (TypeError ''object is not iterable'')"

text \<open>
  \<^verbatim>\<open>[getattr(pybullet, opt) for opt in options]\<close>. The pybullet module is a library
  outside the repository: its namespace is the parameter \<open>pb\<close>, a map from attribute
  names to values. A name the module does not have raises \<open>AttributeError\<close>; the
  first failure ends the comprehension.
\<close>

fun getattr :: "(string \<rightharpoonup> pyval) \<Rightarrow> pyval \<Rightarrow> exn + pyval" where
  "getattr pb (PyStr opt) =
     (case pb opt of None \<Rightarrow> Inl (AttributeError opt) | Some v \<Rightarrow> Inr v)"
| "getattr pb v = Inl (TypeError ''attribute name must be string'')"

fun getattr_each :: "(string \<rightharpoonup> pyval) \<Rightarrow> pyval list \<Rightarrow> exn + pyval list" where
  "getattr_each pb [] = Inr []"
| "getattr_each pb (opt # options) =
     (case getattr pb opt of
        Inl e \<Rightarrow> Inl e
      | Inr v \<Rightarrow> (case getattr_each pb options of
                   Inl e \<Rightarrow> Inl e
                 | Inr vs \<Rightarrow> Inr (v # vs)))"

text \<open>
  \<^verbatim>\<open>out = options[0]\<close>, then \<^verbatim>\<open>out |= opt\<close> for every \<^verbatim>\<open>opt\<close> of
  \<^verbatim>\<open>options[1:]\<close>, on a list whose elements are all ints. \<^verbatim>\<open>options[0]\<close> of the
  empty list raises \<open>IndexError\<close>.
\<close>

fun the_int :: "pyval \<Rightarrow> int" where
  "the_int (PyInt i) = i"
| "the_int v = 0"

fun or_all :: "pyval list \<Rightarrow> exn + int" where
  "or_all [] = Inl (IndexError ''list index out of range'')"
| "or_all (opt # options) = Inr (foldl (\<lambda>out opt. out OR the_int opt) (the_int opt) options)"

text \<open>
  \<^verbatim>\<open>Node.parse_options\<close>, line by line: the special case of an int; a str split at
  \<^verbatim>\<open>'|'\<close>; a list of strs looked up in pybullet; a list of ints folded with \<^verbatim>\<open>|\<close>;
  \<open>ValueError\<close> otherwise.
\<close>

definition parse_options :: "(string \<rightharpoonup> pyval) \<Rightarrow> pyval \<Rightarrow> exn + int" where
  "parse_options pb options =
     (case options of
        PyInt n \<Rightarrow> Inr n
      | _ \<Rightarrow>
        (let options1 = (case options of
                           PyStr s \<Rightarrow> PyList (map PyStr (str_split (CHR ''|'') s))
                         | _ \<Rightarrow> options)
         in case is_list_str options1 of
              Inl e \<Rightarrow> Inl e
            | Inr all_str \<Rightarrow>
              (case (if all_str
                     then (case options1 of
                             PyList ls \<Rightarrow> map_sum id PyList (getattr_each pb ls)
                           | _ \<Rightarrow> Inr options1)
                     else Inr options1) of
                 Inl e \<Rightarrow> Inl e
               | Inr options2 \<Rightarrow>
                 (case is_list_int options2 of
                    Inl e \<Rightarrow> Inl e
                  | Inr all_int \<Rightarrow>
                    if all_int
                    then (case options2 of PyList ls \<Rightarrow> or_all ls | _ \<Rightarrow> or_all [])
                    else Inl (ValueError ''did not recognize options type!'')))))"

subsection \<open>The object classes and the engine: what the file imports\<close>

text \<open>
  The classes of the \<^verbatim>\<open>rpbi\<close> package (\<^verbatim>\<open>PybulletVisualObject\<close>, ...), the pybullet
  engine and the config loaders are imported, not defined, by the file. The handlers are
  therefore parametrised by a record of what they call: every theorem about a handler
  that does not fix this record holds for every implementation of the classes.

  \<open>'o\<close> is a reference to an object of one of the classes, \<open>'c\<close> what a config
  holds besides its name, and \<open>'w\<close> the world the calls act on: the state of the
  engine and of the objects themselves. A method call takes the world and returns the
  new one with its result; an attribute read returns a value or raises. \<open>isinstance\<close>
  depends on the object's class only.
\<close>

datatype kind =
    PybulletVisualObject
  | PybulletCollisionObject
  | PybulletDynamicObject
  | PybulletRobot
  | PybulletSoftBodyObject
  | PybulletURDF
  | PybulletRGBDSensor

text \<open>
  A config is a dict: \<^verbatim>\<open>PybulletObjects.add\<close> reads \<^verbatim>\<open>config['name']\<close> (\<open>None\<close>
  when the key is missing) and hands the whole config to the class.
\<close>

record 'c object_config =
  config_name :: "string option"
  config_rest :: 'c

text \<open>
  A value of a dynamics dict or of a field of the \<^verbatim>\<open>ObjectDynamics\<close> message: a
  float (a real number here: the handlers copy these values and compute nothing with
  them) or a vector of floats (\<^verbatim>\<open>localInertiaDiagonal\<close>).
\<close>

datatype dval = Float real | Vector "real list"

type_synonym dynamics_dict = "string \<rightharpoonup> dval"

record ('o, 'c, 'w) rpbi =
  construct :: "kind \<Rightarrow> 'c object_config \<Rightarrow> 'w \<Rightarrow> (exn + 'o) \<times> 'w"
  destroy :: "'o \<Rightarrow> 'w \<Rightarrow> exn option \<times> 'w"
  get_dynamics :: "'o \<Rightarrow> int \<Rightarrow> 'w \<Rightarrow> (exn + dynamics_dict) \<times> 'w"
  change_dynamics :: "'o \<Rightarrow> dynamics_dict \<Rightarrow> int \<Rightarrow> 'w \<Rightarrow> exn option \<times> 'w"
  isinstance :: "'o \<Rightarrow> kind \<Rightarrow> bool"
  basePosition :: "'o \<Rightarrow> 'w \<Rightarrow> exn + real list"
  baseOrientation :: "'o \<Rightarrow> 'w \<Rightarrow> exn + real list"
  body_unique_id :: "'o \<Rightarrow> 'w \<Rightarrow> exn + int"
  resetBasePositionAndOrientation :: "int \<Rightarrow> real list \<Rightarrow> real list \<Rightarrow> 'w \<Rightarrow> exn option \<times> 'w"
  load_config :: "string \<Rightarrow> exn + 'c object_config"
  load_configs :: "string \<Rightarrow> exn + 'c object_config"

subsection \<open>The node's state and the registry PybulletObjects\<close>

text \<open>
  \<^verbatim>\<open>Node\<close> holds \<^verbatim>\<open>self.counter\<close> and \<^verbatim>\<open>self.pybullet_objects\<close>, a dict from
  names to objects; \<open>world\<close> is the state behind the objects (see above). The calls
  of \<^verbatim>\<open>loginfo\<close>, \<^verbatim>\<open>logwarn\<close>, \<^verbatim>\<open>logerr\<close> and \<^verbatim>\<open>print_exc\<close> write to the ROS log
  and change nothing of this state: they are left out.
\<close>

record ('o, 'w) node =
  counter :: int
  pybullet_objects :: "string \<rightharpoonup> 'o"
  world :: 'w

text \<open>The text of the \<open>KeyError\<close> that \<^verbatim>\<open>add\<close> and \<^verbatim>\<open>__setitem__\<close> raise.\<close>

definition already_exists :: "string \<Rightarrow> exn" where
  "already_exists nm =
     KeyError (nm @ '' already exists, pybullet objects must be given unique names!'')"

text \<open>\<^verbatim>\<open>PybulletObjects.__setitem__\<close>.\<close>

definition setitem :: "('o, 'w) node \<Rightarrow> string \<Rightarrow> 'o \<Rightarrow> exn option \<times> ('o, 'w) node" where
  "setitem n nm obj =
     (case pybullet_objects n nm of
        Some old \<Rightarrow> (Some (already_exists nm), n)
      | None \<Rightarrow> (None, n\<lparr>pybullet_objects := (pybullet_objects n)(nm \<mapsto> obj)\<rparr>))"

text \<open>
  \<^verbatim>\<open>PybulletObjects.add\<close>: the name is read, the duplicate is refused, and only then
  the class is called; its result is stored through \<^verbatim>\<open>__setitem__\<close>.
\<close>

definition add ::
  "('o, 'c, 'w) rpbi \<Rightarrow> ('o, 'w) node \<Rightarrow> 'c object_config \<Rightarrow> kind \<Rightarrow> exn option \<times> ('o, 'w) node"
where
  "add rp n config object_type =
     (case config_name config of
        None \<Rightarrow> (Some (KeyError ''name''), n)
      | Some nm \<Rightarrow>
        (case pybullet_objects n nm of
           Some old \<Rightarrow> (Some (already_exists nm), n)
         | None \<Rightarrow>
           (case construct rp object_type config (world n) of
              (Inl e, w) \<Rightarrow> (Some e, n\<lparr>world := w\<rparr>)
            | (Inr obj, w) \<Rightarrow> setitem (n\<lparr>world := w\<rparr>) nm obj)))"

text \<open>
  \<^verbatim>\<open>PybulletObjects.__delitem__\<close>: \<^verbatim>\<open>self[name]\<close> raises \<open>KeyError\<close> for a name
  that is not there; \<^verbatim>\<open>destroy()\<close> runs before the entry is deleted, so an
  exception of \<^verbatim>\<open>destroy\<close> leaves the statement that deletes it unexecuted.
\<close>

definition delitem ::
  "('o, 'c, 'w) rpbi \<Rightarrow> ('o, 'w) node \<Rightarrow> string \<Rightarrow> exn option \<times> ('o, 'w) node"
where
  "delitem rp n nm =
     (case pybullet_objects n nm of
        None \<Rightarrow> (Some (KeyError nm), n)
      | Some obj \<Rightarrow>
        (case destroy rp obj (world n) of
           (Some e, w) \<Rightarrow> (Some e, n\<lparr>world := w\<rparr>)
         | (None, w) \<Rightarrow>
           (None, n\<lparr>world := w, pybullet_objects := (pybullet_objects n)(nm := None)\<rparr>)))"

subsection \<open>Requests and responses\<close>

text \<open>
  A response's message is kept as the expression the source builds it from: a literal,
  \<^verbatim>\<open>str(err)\<close>, or one of the three formatted texts.
\<close>

datatype msg_text =
    Lit string
  | StrOf exn
  | FailedToRemove exn
  | DoesNotExist string
  | UnknownObjectType int

text \<open>
  \<open>FailedToRemove e\<close> is \<^verbatim>\<open>'failed to remove Pybullet object, exception: ' + str(e)\<close>,
  \<open>DoesNotExist nm\<close> is \<^verbatim>\<open>f'given object "{name}" does not exist!'\<close>, and
  \<open>UnknownObjectType t\<close> is the text \<^verbatim>\<open>did not recognize object type, given ...\<close>
  of \<^verbatim>\<open>service_add_pybullet_object\<close>.
\<close>

record response =
  success :: bool
  message :: msg_text

text \<open>The \<^verbatim>\<open>ObjectDynamics\<close> message: the nine fields the handlers read and write.\<close>

record ObjectDynamics =
  mass :: dval
  lateral_friction :: dval
  local_inertia_diagonal :: dval
  restitution :: dval
  rolling_friction :: dval
  spinning_friction :: dval
  contact_damping :: dval
  contact_stiffness :: dval
  collision_margin :: dval

record dynamics_response = response +
  object_dynamics :: "ObjectDynamics option"

text \<open>
  Modelled from the spec: the declaration of the \<^verbatim>\<open>GetObjectPosition\<close> response is
  not in the file. The spec gives it an optional position and an optional orientation
  beside \<open>success\<close> and \<open>message\<close>. The handler builds the response from
  \<open>success\<close> and \<open>message\<close> alone; a field it does not pass is \<open>None\<close>.
\<close>

record position_response = response +
  position :: "real list option"
  orientation :: "real list option"

text \<open>\<^verbatim>\<open>req.pybullet_object\<close> of an \<^verbatim>\<open>AddPybulletObject\<close> request.\<close>

record PybulletObject =
  object_type :: int
  filename :: string
  config :: string

text \<open>
  The request of \<^verbatim>\<open>GetObjectDynamics\<close> and of \<^verbatim>\<open>GetObjectPosition\<close>, and its
  extension for \<^verbatim>\<open>ChangeObjectDynamics\<close> (\<^verbatim>\<open>req.object_dynamics\<close>).
\<close>

record object_request =
  object_name :: string
  link_idx :: int

record change_request = object_request +
  req_object_dynamics :: ObjectDynamics

subsection \<open>The service handlers\<close>

text \<open>
  A handler returns its response (\<open>Inr\<close>), or the exception that leaves it uncaught
  (\<open>Inl\<close>), and the node's state after the call.
\<close>

text \<open>
  Modelled from the spec: the constants \<^verbatim>\<open>PybulletObject.VISUAL\<close>, ... of the message
  declaration, which is not in the file; the spec numbers them 0 to 5.
\<close>

definition kind_of_code :: "int \<Rightarrow> kind option" where
  "kind_of_code t =
     (if t = 0 then Some PybulletVisualObject
      else if t = 1 then Some PybulletCollisionObject
      else if t = 2 then Some PybulletDynamicObject
      else if t = 3 then Some PybulletRobot
      else if t = 4 then Some PybulletSoftBodyObject
      else if t = 5 then Some PybulletURDF
      else None)"

text \<open>The \<^verbatim>\<open>try\<close> block of \<^verbatim>\<open>service_add_pybullet_object\<close>, for either loader.\<close>

definition try_add ::
  "('o, 'c, 'w) rpbi \<Rightarrow> ('o, 'w) node \<Rightarrow> exn + 'c object_config \<Rightarrow> kind
     \<Rightarrow> (exn + response) \<times> ('o, 'w) node"
where
  "try_add rp n loaded k =
     (case loaded of
        Inl err \<Rightarrow> (Inr \<lparr>success = False, message = StrOf err\<rparr>, n)
      | Inr cfg \<Rightarrow>
        (case add rp n cfg k of
           (Some err, n') \<Rightarrow> (Inr \<lparr>success = False, message = StrOf err\<rparr>, n')
         | (None, n') \<Rightarrow> (Inr \<lparr>success = True, message = Lit ''added pybullet object''\<rparr>, n')))"

definition service_add_pybullet_object ::
  "('o, 'c, 'w) rpbi \<Rightarrow> ('o, 'w) node \<Rightarrow> PybulletObject \<Rightarrow> (exn + response) \<times> ('o, 'w) node"
where
  "service_add_pybullet_object rp n req =
     (case kind_of_code (object_type req) of
        None \<Rightarrow>
          (Inr \<lparr>success = False, message = UnknownObjectType (object_type req)\<rparr>, n)
      | Some k \<Rightarrow>
          if filename req \<noteq> [] then try_add rp n (load_config rp (filename req)) k
          else if config req \<noteq> [] then try_add rp n (load_configs rp (config req)) k
          else (Inr \<lparr>success = False,
                     message = Lit ''failed to add pybullet object, neither filename of config was given in request!''\<rparr>,
                n))"

text \<open>
  The \<^verbatim>\<open>isinstance\<close> chain of the two \<^verbatim>\<open>get\<close> handlers: its \<^verbatim>\<open>else\<close> branch only
  replaces the message (the branch that refused the request is inside a string
  literal, so it is not code).
\<close>

definition here_message :: msg_text where
  "here_message = Lit (''hi im here'' @ replicate 37 (CHR ''*''))"

definition checked_message :: "('o, 'c, 'w) rpbi \<Rightarrow> 'o \<Rightarrow> msg_text \<Rightarrow> msg_text" where
  "checked_message rp obj message0 =
     (if isinstance rp obj PybulletCollisionObject then message0
      else if isinstance rp obj PybulletDynamicObject then message0
      else here_message)"

text \<open>\<^verbatim>\<open>d[k]\<close> on a dict, and sequencing of steps that may raise.\<close>

definition getitem :: "(string \<rightharpoonup> 'v) \<Rightarrow> string \<Rightarrow> exn + 'v" where
  "getitem d k = (case d k of None \<Rightarrow> Inl (KeyError k) | Some v \<Rightarrow> Inr v)"

definition and_then :: "exn + 'a \<Rightarrow> ('a \<Rightarrow> exn + 'b) \<Rightarrow> exn + 'b" where
  "and_then x f = (case x of Inl e \<Rightarrow> Inl e | Inr v \<Rightarrow> f v)"

text \<open>The nine assignments of \<^verbatim>\<open>service_get_pybullet_object_dynamics\<close>, in order.\<close>

definition msg_of_dict :: "dynamics_dict \<Rightarrow> exn + ObjectDynamics" where
  "msg_of_dict d =
     and_then (getitem d ''mass'') (\<lambda>v1.
     and_then (getitem d ''lateralFriction'') (\<lambda>v2.
     and_then (getitem d ''localInertiaDiagonal'') (\<lambda>v3.
     and_then (getitem d ''restitution'') (\<lambda>v4.
     and_then (getitem d ''rollingFriction'') (\<lambda>v5.
     and_then (getitem d ''spinningFriction'') (\<lambda>v6.
     and_then (getitem d ''contactDamping'') (\<lambda>v7.
     and_then (getitem d ''contactStiffness'') (\<lambda>v8.
     and_then (getitem d ''collisionMargin'') (\<lambda>v9.
       Inr \<lparr>mass = v1, lateral_friction = v2, local_inertia_diagonal = v3,
            restitution = v4, rolling_friction = v5, spinning_friction = v6,
            contact_damping = v7, contact_stiffness = v8, collision_margin = v9\<rparr>)))))))))"

definition service_get_pybullet_object_dynamics ::
  "('o, 'c, 'w) rpbi \<Rightarrow> ('o, 'w) node \<Rightarrow> object_request
     \<Rightarrow> (exn + dynamics_response) \<times> ('o, 'w) node"
where
  "service_get_pybullet_object_dynamics rp n req =
     (case pybullet_objects n (object_name req) of
        None \<Rightarrow>
          (Inr \<lparr>success = False,
                message = Lit ''did not recognize object name (get dynamics)'',
                object_dynamics = None\<rparr>, n)
      | Some obj \<Rightarrow>
        (case get_dynamics rp obj (link_idx req) (world n) of
           (Inl e, w) \<Rightarrow> (Inl e, n\<lparr>world := w\<rparr>)
         | (Inr d, w) \<Rightarrow>
           (case msg_of_dict d of
              Inl e \<Rightarrow> (Inl e, n\<lparr>world := w\<rparr>)
            | Inr m \<Rightarrow>
              (Inr \<lparr>success = True,
                    message = checked_message rp obj (Lit ''got pybullet object dynamics''),
                    object_dynamics = Some m\<rparr>,
               n\<lparr>world := w\<rparr>))))"

text \<open>
  \<^verbatim>\<open>service_get_pybullet_object_position\<close>: the two attributes are read, the base
  is reset to the fixed pose, the counter is incremented, and the response is built
  from \<open>success\<close> and \<open>message\<close>.
\<close>

definition new_position :: "real list" where
  "new_position = [0.6, 0.2, - 0.09]"

definition new_orientation :: "real list" where
  "new_orientation = [0, 0, 0.707, - 0.707]"

definition service_get_pybullet_object_position ::
  "('o, 'c, 'w) rpbi \<Rightarrow> ('o, 'w) node \<Rightarrow> object_request
     \<Rightarrow> (exn + position_response) \<times> ('o, 'w) node"
where
  "service_get_pybullet_object_position rp n req =
     (case pybullet_objects n (object_name req) of
        None \<Rightarrow>
          (Inr \<lparr>success = False,
                message = Lit ''did not recognize object name (get position)'',
                position = None, orientation = None\<rparr>, n)
      | Some obj \<Rightarrow>
        (case basePosition rp obj (world n) of
           Inl e \<Rightarrow> (Inl e, n)
         | Inr current_position \<Rightarrow>
           (case baseOrientation rp obj (world n) of
              Inl e \<Rightarrow> (Inl e, n)
            | Inr current_orientation \<Rightarrow>
              (case body_unique_id rp obj (world n) of
                 Inl e \<Rightarrow> (Inl e, n)
               | Inr uid \<Rightarrow>
                 (case resetBasePositionAndOrientation rp uid new_position new_orientation
                         (world n) of
                    (Some e, w) \<Rightarrow> (Inl e, n\<lparr>world := w\<rparr>)
                  | (None, w) \<Rightarrow>
                    (Inr \<lparr>success = True,
                          message = checked_message rp obj (Lit ''got pybullet object position''),
                          position = None, orientation = None\<rparr>,
                     n\<lparr>world := w, counter := counter n + 1\<rparr>))))))"

text \<open>The dict \<^verbatim>\<open>service_change_pybullet_object_dynamics\<close> fills from the request.\<close>

definition dict_of_msg :: "ObjectDynamics \<Rightarrow> dynamics_dict" where
  "dict_of_msg m =
     [''mass'' \<mapsto> mass m,
      ''lateralFriction'' \<mapsto> lateral_friction m,
      ''localInertiaDiagonal'' \<mapsto> local_inertia_diagonal m,
      ''restitution'' \<mapsto> restitution m,
      ''rollingFriction'' \<mapsto> rolling_friction m,
      ''spinningFriction'' \<mapsto> spinning_friction m,
      ''contactDamping'' \<mapsto> contact_damping m,
      ''contactStiffness'' \<mapsto> contact_stiffness m,
      ''collisionMargin'' \<mapsto> collision_margin m]"

definition service_change_pybullet_object_dynamics ::
  "('o, 'c, 'w) rpbi \<Rightarrow> ('o, 'w) node \<Rightarrow> change_request
     \<Rightarrow> (exn + response) \<times> ('o, 'w) node"
where
  "service_change_pybullet_object_dynamics rp n req =
     (case pybullet_objects n (object_name req) of
        None \<Rightarrow>
          (Inr \<lparr>success = False,
                message = Lit ''did not recognize object name (change dynamics)''\<rparr>, n)
      | Some obj \<Rightarrow>
        (case change_dynamics rp obj (dict_of_msg (req_object_dynamics req)) (link_idx req)
                (world n) of
           (Some e, w) \<Rightarrow> (Inl e, n\<lparr>world := w\<rparr>)
         | (None, w) \<Rightarrow>
           (Inr \<lparr>success = True, message = Lit ''changed pybullet object dynamics''\<rparr>,
            n\<lparr>world := w\<rparr>)))"

text \<open>
  \<^verbatim>\<open>service_remove_pybullet_object\<close>: \<^verbatim>\<open>except KeyError\<close> comes first, then
  \<^verbatim>\<open>except Exception\<close>.
\<close>

fun is_KeyError :: "exn \<Rightarrow> bool" where
  "is_KeyError (KeyError a) = True"
| "is_KeyError e = False"

definition service_remove_pybullet_object ::
  "('o, 'c, 'w) rpbi \<Rightarrow> ('o, 'w) node \<Rightarrow> string \<Rightarrow> (exn + response) \<times> ('o, 'w) node"
where
  "service_remove_pybullet_object rp n nm =
     (case delitem rp n nm of
        (None, n') \<Rightarrow> (Inr \<lparr>success = True, message = Lit ''removed pybullet object''\<rparr>, n')
      | (Some e, n') \<Rightarrow>
          if is_KeyError e
          then (Inr \<lparr>success = False, message = DoesNotExist nm\<rparr>, n')
          else (Inr \<lparr>success = False, message = FailedToRemove e\<rparr>, n'))"

subsection \<open>A simulated engine and object class\<close>

text \<open>
  Modelled from the spec: the object classes and the engine are not in the file. This
  is one implementation of the record above that follows the spec's section 4.3, to run
  the handlers on concrete inputs. The engine holds bodies, each with a pose and the
  dynamics dict of each of its links; an object is its class and the id of its body.
  The kinds the spec names as rigid bodies have link-indexed dynamics:
  \<open>get_dynamics\<close> and \<open>change_dynamics\<close> fail on every other kind, and on a link
  the body does not have; \<open>change_dynamics\<close> writes the keys of the dict it is given
  and leaves the link's other keys as they are. A config holds the body to create and
  a loader returns no config.
\<close>

record body =
  body_position :: "real list"
  body_orientation :: "real list"
  body_links :: "int \<rightharpoonup> dynamics_dict"

record sim_object =
  sim_kind :: kind
  sim_uid :: int

record sim_world =
  bodies :: "int \<rightharpoonup> body"
  next_uid :: int

definition has_dynamics :: "kind \<Rightarrow> bool" where
  "has_dynamics k =
     (k = PybulletCollisionObject \<or> k = PybulletDynamicObject \<or> k = PybulletRobot)"

definition sim_construct ::
  "kind \<Rightarrow> body object_config \<Rightarrow> sim_world \<Rightarrow> (exn + sim_object) \<times> sim_world"
where
  "sim_construct k cfg w =
     (Inr \<lparr>sim_kind = k, sim_uid = next_uid w\<rparr>,
      w\<lparr>bodies := (bodies w)(next_uid w \<mapsto> config_rest cfg), next_uid := next_uid w + 1\<rparr>)"

definition sim_destroy :: "sim_object \<Rightarrow> sim_world \<Rightarrow> exn option \<times> sim_world" where
  "sim_destroy obj w =
     (case bodies w (sim_uid obj) of
        None \<Rightarrow> (Some (Error ''BackendCallError''), w)
      | Some b \<Rightarrow> (None, w\<lparr>bodies := (bodies w)(sim_uid obj := None)\<rparr>))"

definition sim_link :: "sim_object \<Rightarrow> int \<Rightarrow> sim_world \<Rightarrow> exn + body \<times> dynamics_dict" where
  "sim_link obj link_index w =
     (if \<not> has_dynamics (sim_kind obj) then Inl (Error ''UnsupportedOperation'')
      else (case bodies w (sim_uid obj) of
              None \<Rightarrow> Inl (Error ''BackendCallError'')
            | Some b \<Rightarrow>
              (case body_links b link_index of
                 None \<Rightarrow> Inl (Error ''InvalidLinkIndex'')
               | Some d \<Rightarrow> Inr (b, d))))"

definition sim_get_dynamics ::
  "sim_object \<Rightarrow> int \<Rightarrow> sim_world \<Rightarrow> (exn + dynamics_dict) \<times> sim_world"
where
  "sim_get_dynamics obj link_index w =
     (case sim_link obj link_index w of
        Inl e \<Rightarrow> (Inl e, w)
      | Inr (b, d) \<Rightarrow> (Inr d, w))"

definition sim_change_dynamics ::
  "sim_object \<Rightarrow> dynamics_dict \<Rightarrow> int \<Rightarrow> sim_world \<Rightarrow> exn option \<times> sim_world"
where
  "sim_change_dynamics obj props link_index w =
     (case sim_link obj link_index w of
        Inl e \<Rightarrow> (Some e, w)
      | Inr (b, d) \<Rightarrow>
          (None,
           w\<lparr>bodies := (bodies w)(sim_uid obj \<mapsto>
                b\<lparr>body_links := (body_links b)(link_index \<mapsto> d ++ props)\<rparr>)\<rparr>))"

definition sim_pose :: "(body \<Rightarrow> real list) \<Rightarrow> sim_object \<Rightarrow> sim_world \<Rightarrow> exn + real list" where
  "sim_pose part obj w =
     (case bodies w (sim_uid obj) of
        None \<Rightarrow> Inl (Error ''BackendCallError'')
      | Some b \<Rightarrow> Inr (part b))"

definition sim_reset ::
  "int \<Rightarrow> real list \<Rightarrow> real list \<Rightarrow> sim_world \<Rightarrow> exn option \<times> sim_world"
where
  "sim_reset uid pos orn w =
     (case bodies w uid of
        None \<Rightarrow> (Some (Error ''BackendCallError''), w)
      | Some b \<Rightarrow>
          (None, w\<lparr>bodies := (bodies w)(uid \<mapsto> b\<lparr>body_position := pos, body_orientation := orn\<rparr>)\<rparr>))"

definition sim :: "(sim_object, body, sim_world) rpbi" where
  "sim =
     \<lparr>construct = sim_construct,
      destroy = sim_destroy,
      get_dynamics = sim_get_dynamics,
      change_dynamics = sim_change_dynamics,
      isinstance = (\<lambda>obj k. sim_kind obj = k),
      basePosition = sim_pose body_position,
      baseOrientation = sim_pose body_orientation,
      body_unique_id = (\<lambda>obj w. Inr (sim_uid obj)),
      resetBasePositionAndOrientation = sim_reset,
      load_config = (\<lambda>f. Inl (Error ''ConfigLoadError'')),
      load_configs = (\<lambda>c. Inl (Error ''ConfigLoadError''))\<rparr>"

text \<open>
  A node to run the handlers on: a dynamic object \<open>box1\<close> with one link (index 0),
  a visual object \<open>marker\<close>, and an object \<open>ghost\<close> whose body the engine no longer
  has, so that its \<open>destroy\<close> fails.
\<close>

definition box_dynamics :: dynamics_dict where
  "box_dynamics =
     [''mass'' \<mapsto> Float 1,
      ''lateralFriction'' \<mapsto> Float 0.5,
      ''localInertiaDiagonal'' \<mapsto> Vector [1, 1, 1],
      ''restitution'' \<mapsto> Float 0.1,
      ''rollingFriction'' \<mapsto> Float 0.2,
      ''spinningFriction'' \<mapsto> Float 0.3,
      ''contactDamping'' \<mapsto> Float 0.4,
      ''contactStiffness'' \<mapsto> Float 0.6,
      ''collisionMargin'' \<mapsto> Float 0.7]"

definition box_body :: body where
  "box_body =
     \<lparr>body_position = [0, 0, 1], body_orientation = [0, 0, 0, 1],
      body_links = [0 \<mapsto> box_dynamics]\<rparr>"

definition marker_body :: body where
  "marker_body =
     \<lparr>body_position = [1, 1, 0], body_orientation = [0, 0, 0, 1],
      body_links = Map.empty\<rparr>"

definition box1 :: sim_object where
  "box1 = \<lparr>sim_kind = PybulletDynamicObject, sim_uid = 0\<rparr>"

definition marker :: sim_object where
  "marker = \<lparr>sim_kind = PybulletVisualObject, sim_uid = 1\<rparr>"

definition ghost :: sim_object where
  "ghost = \<lparr>sim_kind = PybulletCollisionObject, sim_uid = 7\<rparr>"

definition node0 :: "(sim_object, sim_world) node" where
  "node0 =
     \<lparr>counter = 0,
      pybullet_objects = [''box1'' \<mapsto> box1, ''marker'' \<mapsto> marker, ''ghost'' \<mapsto> ghost],
      world = \<lparr>bodies = [0 \<mapsto> box_body, 1 \<mapsto> marker_body], next_uid = 2\<rparr>\<rparr>"

text \<open>
  Modelled from the spec: the message declaration is not in the file. \<^verbatim>\<open>ObjectDynamics()\<close>
  is the message as its constructor leaves it, every float field zero; a client that
  means to change the mass alone sets that one field.
\<close>

definition ObjectDynamics_init :: ObjectDynamics where
  "ObjectDynamics_init =
     \<lparr>mass = Float 0, lateral_friction = Float 0,
      local_inertia_diagonal = Vector [0, 0, 0], restitution = Float 0,
      rolling_friction = Float 0, spinning_friction = Float 0,
      contact_damping = Float 0, contact_stiffness = Float 0,
      collision_margin = Float 0\<rparr>"

text \<open>The body of an object's entry in the registry, and a key of one of its links.\<close>

definition body_of :: "(sim_object, sim_world) node \<Rightarrow> string \<Rightarrow> body option" where
  "body_of n nm =
     (case pybullet_objects n nm of
        None \<Rightarrow> None
      | Some obj \<Rightarrow> bodies (world n) (sim_uid obj))"

definition link_value ::
  "(sim_object, sim_world) node \<Rightarrow> string \<Rightarrow> int \<Rightarrow> string \<Rightarrow> dval option"
where
  "link_value n nm link_index k =
     (case body_of n nm of
        None \<Rightarrow> None
      | Some b \<Rightarrow> (case body_links b link_index of None \<Rightarrow> None | Some d \<Rightarrow> d k))"

text \<open>
  A sample of the pybullet module's namespace, to run \<^verbatim>\<open>parse_options\<close> on: two of
  its URDF flags and one of its functions.
\<close>

definition pybullet_sample :: "string \<rightharpoonup> pyval" where
  "pybullet_sample =
     [''URDF_USE_INERTIA_FROM_FILE'' \<mapsto> PyInt 2,
      ''URDF_USE_SELF_COLLISION'' \<mapsto> PyInt 8,
      ''connect'' \<mapsto> PyOther]"

section \<open>Properties of parse\_options\<close>

lemma str_split_no_sep:
  "sep \<notin> set s \<Longrightarrow> str_split sep s = [s]"
  by (induction s) auto

lemma str_split_append:
  "sep \<notin> set a \<Longrightarrow> str_split sep (a @ sep # b) = a # str_split sep b"
  by (induction a) (auto split: list.splits)

text \<open>
  What \<^verbatim>\<open>parse_options\<close> does on lists that are not empty: a list of ints is folded
  with \<^verbatim>\<open>|\<close>, and a list that is neither all strs nor all ints is refused with the
  \<open>ValueError\<close>.
\<close>

lemma parse_options_int_list:
  "list_all is_int (v # vs) \<Longrightarrow>
   parse_options pb (PyList (v # vs))
     = Inr (foldl (\<lambda>out opt. out OR the_int opt) (the_int v) vs)"
  by (cases v) (auto simp: parse_options_def)

lemma parse_options_mixed_list:
  "\<not> list_all is_str ls \<Longrightarrow> \<not> list_all is_int ls \<Longrightarrow>
   parse_options pb (PyList ls) = Inl (ValueError ''did not recognize options type!'')"
  by (simp add: parse_options_def)

text \<open>
  Claim C8. For flag names \<open>A\<close> and \<open>B\<close> (names hold no \<^verbatim>\<open>|\<close>) that the pybullet
  module binds to the ints \<open>a\<close> and \<open>b\<close>, the string \<^verbatim>\<open>"A|B"\<close>, the list of the two
  names and the list of the two values all normalise to the bitwise or of \<open>a\<close> and
  \<open>b\<close>; an int is returned unchanged.
\<close>

theorem parse_options_or:
  assumes "pb A = Some (PyInt a)" and "pb B = Some (PyInt b)"
    and "CHR ''|'' \<notin> set A" and "CHR ''|'' \<notin> set B"
  shows "parse_options pb (PyStr (A @ ''|'' @ B)) = Inr (a OR b)
       \<and> parse_options pb (PyList [PyStr A, PyStr B]) = Inr (a OR b)
       \<and> parse_options pb (PyList [PyInt a, PyInt b]) = Inr (a OR b)
       \<and> parse_options pb (PyInt n) = Inr n"
  using assms
  by (simp add: parse_options_def str_split_append str_split_no_sep)

theorem parse_options_or_witness:
  "parse_options pybullet_sample (PyStr ''URDF_USE_INERTIA_FROM_FILE|URDF_USE_SELF_COLLISION'')
     = Inr 10
   \<and> parse_options pybullet_sample
        (PyList [PyStr ''URDF_USE_INERTIA_FROM_FILE'', PyStr ''URDF_USE_SELF_COLLISION''])
     = Inr 10
   \<and> parse_options pybullet_sample (PyList [PyInt 2, PyInt 8]) = Inr 10
   \<and> parse_options pybullet_sample (PyInt 5) = Inr 5"
  using parse_options_or [of pybullet_sample "''URDF_USE_INERTIA_FROM_FILE''" 2
      "''URDF_USE_SELF_COLLISION''" 8 5]
  by (simp add: pybullet_sample_def)

text \<open>
  Claim C9. \<^verbatim>\<open>parse_options\<close> does not return an int for every list of names or of
  ints: the empty list passes both \<^verbatim>\<open>all(...)\<close> tests and \<^verbatim>\<open>options[0]\<close> raises
  \<open>IndexError\<close>. Nor does every other shape end in the \<open>ValueError\<close>: an object
  that is not iterable raises \<open>TypeError\<close> in the first test, and the empty string
  splits into one empty name, which pybullet does not have.
\<close>

theorem parse_options_empty_list:
  "parse_options pb (PyList []) = Inl (IndexError ''list index out of range'')
   \<and> parse_options pb PyOther = Inl (TypeError ''object is not iterable'')
   \<and> parse_options pybullet_sample (PyStr []) = Inl (AttributeError [])"
  by (simp add: parse_options_def pybullet_sample_def)

section \<open>Properties of the registry and the handlers\<close>

lemmas sim_defs = sim_def sim_construct_def sim_destroy_def sim_link_def sim_get_dynamics_def
  sim_change_dynamics_def sim_pose_def sim_reset_def has_dynamics_def

lemmas node0_defs = node0_def box1_def marker_def ghost_def box_body_def marker_body_def

subsection \<open>GetPosition\<close>

text \<open>
  Claim C1. A successful GetPosition request is not a read: for a registered object
  whose attributes can be read and whose reset succeeds, the handler leaves the world in
  the state \<^verbatim>\<open>resetBasePositionAndOrientation\<close> returns for the fixed pose
  \<open>new_position\<close>, \<open>new_orientation\<close>, and the node's counter one higher.
\<close>

theorem get_position_resets_pose:
  assumes "pybullet_objects n (object_name req) = Some obj"
    and "basePosition rp obj (world n) = Inr p"
    and "baseOrientation rp obj (world n) = Inr q"
    and "body_unique_id rp obj (world n) = Inr uid"
    and "resetBasePositionAndOrientation rp uid new_position new_orientation (world n) = (None, w)"
  shows "snd (service_get_pybullet_object_position rp n req)
           = n\<lparr>world := w, counter := counter n + 1\<rparr>"
  using assms by (simp add: service_get_pybullet_object_position_def)

theorem get_position_resets_pose_witness:
  "map_option body_position (body_of node0 ''box1'') = Some [0, 0, 1]
   \<and> map_option body_position
        (body_of (snd (service_get_pybullet_object_position sim node0
                         \<lparr>object_name = ''box1'', link_idx = 0\<rparr>)) ''box1'')
       = Some [0.6, 0.2, - 0.09]
   \<and> counter node0 = 0
   \<and> counter (snd (service_get_pybullet_object_position sim node0
                      \<lparr>object_name = ''box1'', link_idx = 0\<rparr>)) = 1"
  using get_position_resets_pose [of node0 "\<lparr>object_name = ''box1'', link_idx = 0\<rparr>" box1 sim
      "[0, 0, 1]" "[0, 0, 0, 1]" 0
      "\<lparr>bodies = [0 \<mapsto> box_body\<lparr>body_position := new_position,
                                  body_orientation := new_orientation\<rparr>,
                  1 \<mapsto> marker_body],
        next_uid = 2\<rparr>"]
  by (simp add: sim_defs node0_defs body_of_def new_position_def new_orientation_def
        fun_upd_twist)

text \<open>
  Claim C2. The response of GetPosition for a registered name carries no pose: whenever
  the handler returns a response, \<open>success\<close> is true and neither the position nor
  the orientation is populated.
\<close>

theorem get_position_returns_no_pose:
  assumes "pybullet_objects n (object_name req) = Some obj"
    and "service_get_pybullet_object_position rp n req = (Inr r, n')"
  shows "success r \<and> position r = None \<and> orientation r = None"
  using assms
  by (auto simp: service_get_pybullet_object_position_def
           split: sum.splits prod.splits option.splits)

theorem get_position_returns_no_pose_witness:
  "fst (service_get_pybullet_object_position sim node0 \<lparr>object_name = ''box1'', link_idx = 0\<rparr>)
     = Inr \<lparr>success = True, message = Lit ''got pybullet object position'',
            position = None, orientation = None\<rparr>"
proof -
  obtain r n' where run:
    "service_get_pybullet_object_position sim node0 \<lparr>object_name = ''box1'', link_idx = 0\<rparr>
       = (Inr r, n')"
    by (simp add: service_get_pybullet_object_position_def sim_defs node0_defs)
  have reg: "pybullet_objects node0 (object_name \<lparr>object_name = ''box1'', link_idx = 0\<rparr>)
               = Some box1"
    by (simp add: node0_def)
  note get_position_returns_no_pose [OF reg run]
  moreover have "message r = Lit ''got pybullet object position''"
    using run
    by (auto simp: service_get_pybullet_object_position_def sim_defs node0_defs
          checked_message_def)
  ultimately show ?thesis
    using run by (cases r) simp
qed

subsection \<open>GetDynamics and ChangeDynamics\<close>

text \<open>
  Claim C3. The two dynamics handlers never refuse a registered object, whatever its
  kind: they call the object's method, and what they return for a registered name is a
  response with \<open>success\<close> true, or else the exception of the call leaves the
  handler. No response with \<open>success\<close> false is returned for an object without
  link-indexed dynamics.
\<close>

theorem dynamics_handlers_never_refuse:
  assumes "pybullet_objects n nm = Some obj"
  shows "(case fst (service_get_pybullet_object_dynamics rp n
                      \<lparr>object_name = nm, link_idx = l\<rparr>) of
            Inl e \<Rightarrow> True
          | Inr r \<Rightarrow> success r)
       \<and> (case fst (service_change_pybullet_object_dynamics rp n
                      \<lparr>object_name = nm, link_idx = l, req_object_dynamics = m\<rparr>) of
            Inl e \<Rightarrow> True
          | Inr r \<Rightarrow> success r)"
  using assms
  by (auto simp: service_get_pybullet_object_dynamics_def
                 service_change_pybullet_object_dynamics_def
           split: sum.splits prod.splits option.splits)

theorem dynamics_handlers_never_refuse_witness:
  "pybullet_objects node0 ''marker'' = Some marker
   \<and> sim_kind marker = PybulletVisualObject
   \<and> service_get_pybullet_object_dynamics sim node0 \<lparr>object_name = ''marker'', link_idx = 0\<rparr>
       = (Inl (Error ''UnsupportedOperation''), node0)
   \<and> service_change_pybullet_object_dynamics sim node0
         \<lparr>object_name = ''marker'', link_idx = 0, req_object_dynamics = ObjectDynamics_init\<rparr>
       = (Inl (Error ''UnsupportedOperation''), node0)"
  using dynamics_handlers_never_refuse [of node0 "''marker''" marker sim 0 ObjectDynamics_init]
  by (simp add: service_get_pybullet_object_dynamics_def
        service_change_pybullet_object_dynamics_def sim_defs node0_defs)

text \<open>
  Claim C4. An error of the object's \<^verbatim>\<open>get_dynamics\<close> or \<^verbatim>\<open>change_dynamics\<close> is
  not turned into a response: the two handlers have no \<^verbatim>\<open>try\<close>, and the exception
  leaves them as it was raised.
\<close>

theorem backend_errors_escape:
  assumes "pybullet_objects n nm = Some obj"
    and "get_dynamics rp obj l (world n) = (Inl e1, w1)"
    and "change_dynamics rp obj (dict_of_msg m) l (world n) = (Some e2, w2)"
  shows "service_get_pybullet_object_dynamics rp n \<lparr>object_name = nm, link_idx = l\<rparr>
           = (Inl e1, n\<lparr>world := w1\<rparr>)
       \<and> service_change_pybullet_object_dynamics rp n
           \<lparr>object_name = nm, link_idx = l, req_object_dynamics = m\<rparr>
           = (Inl e2, n\<lparr>world := w2\<rparr>)"
  using assms
  by (simp add: service_get_pybullet_object_dynamics_def
        service_change_pybullet_object_dynamics_def)

theorem backend_errors_escape_witness:
  "fst (service_get_pybullet_object_dynamics sim node0 \<lparr>object_name = ''box1'', link_idx = 5\<rparr>)
     = Inl (Error ''InvalidLinkIndex'')
   \<and> fst (service_change_pybullet_object_dynamics sim node0
            \<lparr>object_name = ''box1'', link_idx = 5, req_object_dynamics = ObjectDynamics_init\<rparr>)
     = Inl (Error ''InvalidLinkIndex'')"
  using backend_errors_escape [of node0 "''box1''" box1 sim 5 "Error ''InvalidLinkIndex''"
      "world node0" ObjectDynamics_init "Error ''InvalidLinkIndex''" "world node0"]
  by (simp add: sim_defs node0_defs)

text \<open>
  The handlers that do catch: AddObject and RemoveObject return a response on every
  input, whatever the loader, the class or \<^verbatim>\<open>destroy\<close> raises.
\<close>

lemma add_never_raises:
  "\<exists>r. fst (service_add_pybullet_object rp n req) = Inr r"
  by (auto simp: service_add_pybullet_object_def try_add_def
           split: option.splits sum.splits prod.splits)

lemma remove_never_raises:
  "\<exists>r. fst (service_remove_pybullet_object rp n nm) = Inr r"
  by (auto simp: service_remove_pybullet_object_def split: option.splits prod.splits)

subsection \<open>RemoveObject\<close>

text \<open>
  Claim C5, as stated, fails: the entry of an object whose \<^verbatim>\<open>destroy\<close> raises is
  still registered after RemoveObject. Here \<open>ghost\<close> is registered, its
  \<^verbatim>\<open>destroy\<close> fails, and the name is still bound after the request.
\<close>

theorem remove_failed_destroy_counterexample:
  "destroy sim ghost (world node0) = (Some (Error ''BackendCallError''), world node0)
   \<and> pybullet_objects node0 ''ghost'' = Some ghost
   \<and> pybullet_objects (snd (service_remove_pybullet_object sim node0 ''ghost'')) ''ghost''
       = Some ghost"
  by (simp add: service_remove_pybullet_object_def delitem_def sim_defs node0_defs)

text \<open>
  Claim C5, amended. For every registered name, if RemoveObject is requested and the
  object's \<^verbatim>\<open>destroy\<close> raises, the entry stays in the registry (only the world is
  as \<^verbatim>\<open>destroy\<close> left it) and the caller gets a response with \<open>success\<close>
  false; whenever the exception is not a \<open>KeyError\<close>, the message of the response
  is the failure message built from the exception.
\<close>

theorem remove_keeps_entry_when_destroy_fails:
  assumes "pybullet_objects n nm = Some obj"
    and "destroy rp obj (world n) = (Some e, w)"
  shows "snd (service_remove_pybullet_object rp n nm) = n\<lparr>world := w\<rparr>
       \<and> pybullet_objects (snd (service_remove_pybullet_object rp n nm)) nm = Some obj
       \<and> (\<exists>r. fst (service_remove_pybullet_object rp n nm) = Inr r
              \<and> \<not> success r
              \<and> (\<not> is_KeyError e \<longrightarrow> message r = FailedToRemove e))"
  using assms
  by (simp add: service_remove_pybullet_object_def delitem_def)

theorem remove_keeps_entry_when_destroy_fails_witness:
  "service_remove_pybullet_object sim node0 ''ghost''
     = (Inr \<lparr>success = False, message = FailedToRemove (Error ''BackendCallError'')\<rparr>, node0)"
proof -
  have reg: "pybullet_objects node0 ''ghost'' = Some ghost"
    by (simp add: node0_def)
  have fails: "destroy sim ghost (world node0) = (Some (Error ''BackendCallError''), world node0)"
    by (simp add: sim_defs node0_defs)
  from remove_keeps_entry_when_destroy_fails [OF reg fails]
  obtain r where state: "snd (service_remove_pybullet_object sim node0 ''ghost'') = node0"
    and resp: "fst (service_remove_pybullet_object sim node0 ''ghost'') = Inr r"
    and r: "\<not> success r" "message r = FailedToRemove (Error ''BackendCallError'')"
    by auto
  from r have "r = \<lparr>success = False, message = FailedToRemove (Error ''BackendCallError'')\<rparr>"
    by (cases r) simp
  with state resp show ?thesis
    by (simp add: prod_eq_iff)
qed

subsection \<open>The registry's add\<close>

text \<open>
  Claim C6. For every state of the node and every config whose name is already
  registered, \<^verbatim>\<open>add\<close> raises the \<open>KeyError\<close> for a duplicate name and returns the
  state it was given: the registry is unchanged and so is the world, whatever the class
  would have done to it, since the class is not called.
\<close>

theorem add_duplicate_name:
  assumes "config_name cfg = Some nm"
    and "pybullet_objects n nm = Some obj"
  shows "add rp n cfg k = (Some (already_exists nm), n)"
  using assms by (simp add: add_def)

theorem add_duplicate_name_witness:
  "add sim node0 \<lparr>config_name = Some ''box1'', config_rest = marker_body\<rparr> PybulletVisualObject
     = (Some (KeyError ''box1 already exists, pybullet objects must be given unique names!''),
        node0)
   \<and> snd (construct sim PybulletVisualObject
             \<lparr>config_name = Some ''box1'', config_rest = marker_body\<rparr> (world node0))
       \<noteq> world node0"
  using add_duplicate_name [of "\<lparr>config_name = Some ''box1'', config_rest = marker_body\<rparr>"
      "''box1''" node0 box1 sim PybulletVisualObject]
  by (simp add: already_exists_def sim_defs node0_defs)

subsection \<open>ChangeDynamics writes every field\<close>

lemma dom_dict_of_msg:
  "dom (dict_of_msg m) =
     {''mass'', ''lateralFriction'', ''localInertiaDiagonal'', ''restitution'',
      ''rollingFriction'', ''spinningFriction'', ''contactDamping'', ''contactStiffness'',
      ''collisionMargin''}"
  by (auto simp: dict_of_msg_def)

lemma msg_of_dict_of_msg: "msg_of_dict (dict_of_msg m) = Inr m"
  by (simp add: msg_of_dict_def dict_of_msg_def getitem_def and_then_def)

lemma msg_of_dict_agree:
  assumes "\<forall>k \<in> dom (dict_of_msg m). d k = dict_of_msg m k"
  shows "msg_of_dict d = Inr m"
proof -
  have "getitem d k = getitem (dict_of_msg m) k" if "k \<in> dom (dict_of_msg m)" for k
    using assms that by (simp add: getitem_def)
  then have "msg_of_dict d = msg_of_dict (dict_of_msg m)"
    by (simp add: msg_of_dict_def dom_dict_of_msg)
  then show ?thesis
    by (simp add: msg_of_dict_of_msg)
qed

text \<open>The simulated object writes the keys it is given, and reads them back.\<close>

lemma sim_change_then_get:
  assumes "change_dynamics sim obj d l w = (None, w')"
  shows "\<exists>d'. get_dynamics sim obj l w' = (Inr d', w') \<and> (\<forall>k \<in> dom d. d' k = d k)"
  using assms
  by (auto simp: sim_defs map_add_dom_app_simps split: if_splits option.splits)

text \<open>
  Claim C7, as stated, fails: a request that sets the mass alone, every other field as
  the message's constructor left it, overwrites the link's lateral friction (0.5 before
  the request, 0 after it).
\<close>

theorem change_overwrites_unset_field_counterexample:
  "link_value node0 ''box1'' 0 ''lateralFriction'' = Some (Float 0.5)
   \<and> lateral_friction (ObjectDynamics_init\<lparr>mass := Float 2\<rparr>)
       = lateral_friction ObjectDynamics_init
   \<and> fst (service_change_pybullet_object_dynamics sim node0
            \<lparr>object_name = ''box1'', link_idx = 0,
             req_object_dynamics = ObjectDynamics_init\<lparr>mass := Float 2\<rparr>\<rparr>)
       = Inr \<lparr>success = True, message = Lit ''changed pybullet object dynamics''\<rparr>
   \<and> link_value
        (snd (service_change_pybullet_object_dynamics sim node0
                \<lparr>object_name = ''box1'', link_idx = 0,
                 req_object_dynamics = ObjectDynamics_init\<lparr>mass := Float 2\<rparr>\<rparr>))
        ''box1'' 0 ''lateralFriction'' = Some (Float 0)"
  by (simp add: service_change_pybullet_object_dynamics_def sim_defs node0_defs
        link_value_def body_of_def box_dynamics_def dict_of_msg_def ObjectDynamics_init_def)

text \<open>
  Claim C7, amended. A ChangeDynamics request hands all nine fields of its message to
  the object's \<^verbatim>\<open>change_dynamics\<close> for the requested link: the request has no field
  that is left unspecified. So for every registered object that writes the keys it is
  given, a GetDynamics for the same object and link after a successful ChangeDynamics
  returns the request's value for every one of the nine fields.
\<close>

theorem change_writes_all_nine_fields:
  assumes reg: "pybullet_objects n nm = Some obj"
    and chg: "service_change_pybullet_object_dynamics rp n
                \<lparr>object_name = nm, link_idx = l, req_object_dynamics = m\<rparr> = (Inr r, n')"
    and writes: "\<And>d w w'. change_dynamics rp obj d l w = (None, w') \<Longrightarrow>
                   \<exists>d'. get_dynamics rp obj l w' = (Inr d', w') \<and> (\<forall>k \<in> dom d. d' k = d k)"
  shows "service_get_pybullet_object_dynamics rp n' \<lparr>object_name = nm, link_idx = l\<rparr>
           = (Inr \<lparr>success = True,
                   message = checked_message rp obj (Lit ''got pybullet object dynamics''),
                   object_dynamics = Some m\<rparr>, n')"
proof -
  obtain w where call: "change_dynamics rp obj (dict_of_msg m) l (world n) = (None, w)"
    and n': "n' = n\<lparr>world := w\<rparr>"
    using reg chg
    by (auto simp: service_change_pybullet_object_dynamics_def
             split: prod.splits option.splits)
  from writes [OF call] obtain d' where
    get: "get_dynamics rp obj l w = (Inr d', w)"
    and same: "\<forall>k \<in> dom (dict_of_msg m). d' k = dict_of_msg m k"
    by blast
  have "msg_of_dict d' = Inr m"
    using same by (rule msg_of_dict_agree)
  then show ?thesis
    using reg get n' by (simp add: service_get_pybullet_object_dynamics_def)
qed

theorem change_writes_all_nine_fields_witness:
  "fst (service_get_pybullet_object_dynamics sim
          (snd (service_change_pybullet_object_dynamics sim node0
                  \<lparr>object_name = ''box1'', link_idx = 0,
                   req_object_dynamics = ObjectDynamics_init\<lparr>mass := Float 2\<rparr>\<rparr>))
          \<lparr>object_name = ''box1'', link_idx = 0\<rparr>)
     = Inr \<lparr>success = True, message = Lit ''got pybullet object dynamics'',
            object_dynamics = Some (ObjectDynamics_init\<lparr>mass := Float 2\<rparr>)\<rparr>"
proof -
  obtain r n' where chg:
    "service_change_pybullet_object_dynamics sim node0
       \<lparr>object_name = ''box1'', link_idx = 0,
        req_object_dynamics = ObjectDynamics_init\<lparr>mass := Float 2\<rparr>\<rparr> = (Inr r, n')"
    by (simp add: service_change_pybullet_object_dynamics_def sim_defs node0_defs)
  have reg: "pybullet_objects node0 ''box1'' = Some box1"
    by (simp add: node0_def)
  have "checked_message sim box1 (Lit ''got pybullet object dynamics'')
          = Lit ''got pybullet object dynamics''"
    by (simp add: checked_message_def sim_def box1_def)
  with change_writes_all_nine_fields [OF reg chg sim_change_then_get] chg
  show ?thesis by simp
qed

end
